theory Spec2Isabelle
  imports Complex_Main "HOL-Library.Word" "HOL-Library.AList" "HOL-Library.Sublist"
begin

section \<open>JavaScript values\<close>

text \<open>
  A JavaScript string is a sequence of UTF-16 code units; \<open>lit\<close> writes an ASCII literal.
\<close>

type_synonym code_unit = "16 word"
type_synonym jsstring = "code_unit list"

definition lit :: "string \<Rightarrow> jsstring" where
  "lit s = map of_char s"

text \<open>
  A JavaScript number is \<open>NaN\<close>, an infinity or a finite value. The finite values are taken
  as real numbers: the model computes without the rounding error and without the overflow of
  IEEE doubles, and it identifies the two zeros (the only divisors in the code below are the
  literals 2 and 100 and an array length, none of which is a negative zero).
\<close>

datatype number = NaN | Num real | PosInfinity | NegInfinity

fun isNaN :: "number \<Rightarrow> bool" where
  "isNaN NaN = True"
| "isNaN _ = False"

fun num_neg :: "number \<Rightarrow> number" where
  "num_neg NaN = NaN"
| "num_neg (Num x) = Num (- x)"
| "num_neg PosInfinity = NegInfinity"
| "num_neg NegInfinity = PosInfinity"

text \<open>The operator \<open>+\<close> on numbers.\<close>

fun num_add :: "number \<Rightarrow> number \<Rightarrow> number" where
  "num_add (Num x) (Num y) = Num (x + y)"
| "num_add NaN _ = NaN"
| "num_add _ NaN = NaN"
| "num_add PosInfinity NegInfinity = NaN"
| "num_add NegInfinity PosInfinity = NaN"
| "num_add PosInfinity _ = PosInfinity"
| "num_add _ PosInfinity = PosInfinity"
| "num_add NegInfinity _ = NegInfinity"
| "num_add _ NegInfinity = NegInfinity"

text \<open>The operator \<open>*\<close>: an infinity times zero is \<open>NaN\<close>.\<close>

fun num_mul :: "number \<Rightarrow> number \<Rightarrow> number" where
  "num_mul (Num x) (Num y) = Num (x * y)"
| "num_mul NaN _ = NaN"
| "num_mul _ NaN = NaN"
| "num_mul (Num x) i = (if x = 0 then NaN else if 0 < x then i else num_neg i)"
| "num_mul i (Num y) = (if y = 0 then NaN else if 0 < y then i else num_neg i)"
| "num_mul PosInfinity i = i"
| "num_mul NegInfinity i = num_neg i"

text \<open>
  The operator \<open>/\<close>: no exception on a zero divisor, \<open>0 / 0\<close> is \<open>NaN\<close> and any other
  finite value over zero is an infinity.
\<close>

fun num_div :: "number \<Rightarrow> number \<Rightarrow> number" where
  "num_div (Num x) (Num y) =
     (if y \<noteq> 0 then Num (x / y)
      else if x = 0 then NaN
      else if 0 < x then PosInfinity else NegInfinity)"
| "num_div NaN _ = NaN"
| "num_div _ NaN = NaN"
| "num_div (Num x) _ = Num 0"
| "num_div PosInfinity (Num y) = (if 0 \<le> y then PosInfinity else NegInfinity)"
| "num_div NegInfinity (Num y) = (if 0 \<le> y then NegInfinity else PosInfinity)"
| "num_div PosInfinity _ = NaN"
| "num_div NegInfinity _ = NaN"

text \<open>The operator \<open>>\<close>: every comparison with \<open>NaN\<close> is false.\<close>

fun num_gt :: "number \<Rightarrow> number \<Rightarrow> bool" where
  "num_gt (Num x) (Num y) = (y < x)"
| "num_gt NaN _ = False"
| "num_gt _ NaN = False"
| "num_gt PosInfinity PosInfinity = False"
| "num_gt PosInfinity _ = True"
| "num_gt _ PosInfinity = False"
| "num_gt NegInfinity _ = False"
| "num_gt _ NegInfinity = True"

definition Math_PI :: number where
  "Math_PI = Num pi"

text \<open>\<open>Math.pow\<close> at a whole exponent, by repeated multiplication; \<open>Math.pow(x, 0)\<close> is 1.\<close>

primrec Math_pow :: "number \<Rightarrow> nat \<Rightarrow> number" where
  "Math_pow x 0 = Num 1"
| "Math_pow x (Suc n) = num_mul x (Math_pow x n)"


section \<open>Printing numbers\<close>

text \<open>The decimal digits of a natural number, and a whole number as a string.\<close>

fun decimalString :: "nat \<Rightarrow> jsstring" where
  "decimalString n =
     (if n < 10 then [of_nat (0x30 + n)]
      else decimalString (n div 10) @ [of_nat (0x30 + n mod 10)])"

declare decimalString.simps [simp del]

definition ToString_int :: "int \<Rightarrow> jsstring" where
  "ToString_int i = (if i < 0 then 0x2D # decimalString (nat (- i)) else decimalString (nat i))"

text \<open>
  \<open>x.toFixed(f)\<close>. For a finite \<open>x\<close> the standard takes the whole number \<open>n\<close> for which
  \<open>n / 10\<^sup>f\<close> is nearest to the magnitude of \<open>x\<close>, the larger one at a tie, prints its
  digits, pads them with zeros on the left to \<open>f + 1\<close> digits, sets the point before the last
  \<open>f\<close> digits, and puts the sign in front. \<open>NaN\<close> and the infinities print as their names.
  (A double of magnitude \<open>10\<^sup>2\<^sup>1\<close> or more prints in exponent form instead; such a double
  is a whole number, and both forms read back as that number. The model prints the digits
  throughout.)
\<close>

definition zeroPad :: "nat \<Rightarrow> jsstring \<Rightarrow> jsstring" where
  "zeroPad k m = replicate (k - length m) 0x30 @ m"

definition fixedDigits :: "nat \<Rightarrow> nat \<Rightarrow> jsstring" where
  "fixedDigits f n =
     (if f = 0 then decimalString n
      else let m0 = zeroPad (f + 1) (decimalString n)
           in take (length m0 - f) m0 @ 0x2E # drop (length m0 - f) m0)"

fun toFixed :: "nat \<Rightarrow> number \<Rightarrow> jsstring" where
  "toFixed f NaN = lit ''NaN''"
| "toFixed f PosInfinity = lit ''Infinity''"
| "toFixed f NegInfinity = lit ''-Infinity''"
| "toFixed f (Num x) =
     (let n = nat \<lfloor>\<bar>x\<bar> * 10 ^ f + 1 / 2\<rfloor>
      in if x < 0 then 0x2D # fixedDigits f n else fixedDigits f n)"

declare toFixed.simps [simp del]


section \<open>Reading numbers from strings\<close>

text \<open>White space and line terminators, which \<open>parseFloat\<close> and \<open>parseInt\<close> skip at the start.\<close>

definition isWhiteSpace :: "code_unit \<Rightarrow> bool" where
  "isWhiteSpace c \<longleftrightarrow>
     c \<in> set [0x9, 0xA, 0xB, 0xC, 0xD, 0x20, 0xA0, 0x1680, 0x2028, 0x2029, 0x202F, 0x205F,
              0x3000, 0xFEFF]
     \<or> (0x2000 \<le> c \<and> c \<le> 0x200A)"

definition isDigit :: "code_unit \<Rightarrow> bool" where
  "isDigit c \<longleftrightarrow> 0x30 \<le> c \<and> c \<le> 0x39"

definition isHexDigit :: "code_unit \<Rightarrow> bool" where
  "isHexDigit c \<longleftrightarrow> isDigit c \<or> (0x61 \<le> c \<and> c \<le> 0x66) \<or> (0x41 \<le> c \<and> c \<le> 0x46)"

definition digitValue :: "code_unit \<Rightarrow> nat" where
  "digitValue c =
     (if isDigit c then unat c - 0x30
      else if 0x61 \<le> c then unat c - 0x61 + 10
      else unat c - 0x41 + 10)"

definition digitsValue :: "nat \<Rightarrow> jsstring \<Rightarrow> nat" where
  "digitsValue radix ds = foldl (\<lambda>a c. a * radix + digitValue c) 0 ds"

definition pow10 :: "int \<Rightarrow> real" where
  "pow10 e = (if 0 \<le> e then 10 ^ nat e else 1 / 10 ^ nat (- e))"

definition signedInteger :: "int \<Rightarrow> jsstring \<Rightarrow> int" where
  "signedInteger sg s =
     (if takeWhile isDigit s = [] then 0 else sg * int (digitsValue 10 (takeWhile isDigit s)))"

text \<open>
  The exponent of the longest exponent part at the start of \<open>s\<close>: \<open>e\<close> or \<open>E\<close>, an optional
  sign, and at least one digit; 0 where there is none.
\<close>

definition exponentPart :: "jsstring \<Rightarrow> int" where
  "exponentPart s =
     (case s of
        [] \<Rightarrow> 0
      | c # t \<Rightarrow>
          if c = 0x65 \<or> c = 0x45 then
            (case t of
               [] \<Rightarrow> 0
             | d # u \<Rightarrow>
                 if d = 0x2B then signedInteger 1 u
                 else if d = 0x2D then signedInteger (- 1) u
                 else signedInteger 1 t)
          else 0)"

text \<open>
  The value of the longest prefix of \<open>s\<close> that is an unsigned decimal literal: \<open>Infinity\<close>,
  or digits with an optional fraction and exponent, or a fraction that starts with the dot.
\<close>

definition strUnsignedDecimalLiteral :: "jsstring \<Rightarrow> number" where
  "strUnsignedDecimalLiteral s =
     (if prefix (lit ''Infinity'') s then PosInfinity
      else
        let ip = takeWhile isDigit s;
            r = dropWhile isDigit s;
            fp = (case r of [] \<Rightarrow> [] | c # t \<Rightarrow> if c = 0x2E then takeWhile isDigit t else []);
            r' = (case r of [] \<Rightarrow> [] | c # t \<Rightarrow> if c = 0x2E then dropWhile isDigit t else r)
        in if ip = [] \<and> fp = [] then NaN
           else Num ((real (digitsValue 10 ip) + real (digitsValue 10 fp) / 10 ^ length fp)
                     * pow10 (exponentPart r')))"

definition parseFloat :: "jsstring \<Rightarrow> number" where
  "parseFloat s =
     (case dropWhile isWhiteSpace s of
        [] \<Rightarrow> NaN
      | c # r \<Rightarrow>
          if c = 0x2D then num_neg (strUnsignedDecimalLiteral r)
          else if c = 0x2B then strUnsignedDecimalLiteral r
          else strUnsignedDecimalLiteral (c # r))"

text \<open>
  \<open>parseInt\<close> without a radix: an optional sign, then hexadecimal digits after \<open>0x\<close> or \<open>0X\<close>
  and decimal digits otherwise, up to the first other character.
\<close>

definition parseInt :: "jsstring \<Rightarrow> number" where
  "parseInt s =
     (let t = dropWhile isWhiteSpace s;
          sign = (case t of [] \<Rightarrow> 1 | c # r \<Rightarrow> if c = 0x2D then - 1 else (1 :: int));
          t1 = (case t of [] \<Rightarrow> [] | c # r \<Rightarrow> if c = 0x2D \<or> c = 0x2B then r else t);
          hex = (prefix (lit ''0x'') t1 \<or> prefix (lit ''0X'') t1);
          z = (if hex then takeWhile isHexDigit (drop 2 t1) else takeWhile isDigit t1)
      in if z = [] then NaN
         else Num (real_of_int (sign * int (digitsValue (if hex then 16 else 10) z))))"


section \<open>Volume calculator\<close>

text \<open>The form state of the new-demand and new-stock pages (\<open>ProductFeatures\<close>).\<close>

record ProductFeatures =
  diameterType :: jsstring
  diameterFrom :: jsstring
  diameterTo :: jsstring
  length' :: jsstring
  quantity :: jsstring
  cubicMeters :: "number option"
  notes' :: "jsstring option"

text \<open>
  \<open>calculateCubicMeters\<close> of both pages (the two copies are the same text): its two
  local values, the value it stores, and the update of the form state. A string is truthy
  when it is not empty.
\<close>

definition avgDiameter :: "ProductFeatures \<Rightarrow> number" where
  "avgDiameter formData =
     num_div (num_div (num_add (parseFloat (diameterFrom formData))
                               (parseFloat (diameterTo formData))) (Num 2)) (Num 100)"

definition volumePerPiece :: "ProductFeatures \<Rightarrow> number" where
  "volumePerPiece formData =
     num_mul (num_mul Math_PI (Math_pow (num_div (avgDiameter formData) (Num 2)) 2))
             (parseFloat (length' formData))"

definition cubicMetersValue :: "ProductFeatures \<Rightarrow> number" where
  "cubicMetersValue formData =
     (if diameterFrom formData \<noteq> [] \<and> diameterTo formData \<noteq> [] \<and> length' formData \<noteq> []
         \<and> quantity formData \<noteq> [] then
        let len = parseFloat (length' formData);
            qty = parseInt (quantity formData)
        in if \<not> isNaN (avgDiameter formData) \<and> \<not> isNaN len \<and> \<not> isNaN qty
              \<and> num_gt (avgDiameter formData) (Num 0) then
             parseFloat (toFixed 3 (num_mul (volumePerPiece formData) qty))
           else Num 0
      else Num 0)"



section \<open>Stored data\<close>

datatype UserRole = ADMIN | CUSTOMER | MANUFACTURER

datatype DemandStatus = RECEIVED | PROCESSING | COMPLETED | CANCELLED

datatype StockStatus = AVAILABLE | RESERVED | SOLD

text \<open>The string behind each member of the two status enumerations.\<close>

fun DemandStatus_value :: "DemandStatus \<Rightarrow> jsstring" where
  "DemandStatus_value RECEIVED = lit ''Received''"
| "DemandStatus_value PROCESSING = lit ''Processing''"
| "DemandStatus_value COMPLETED = lit ''Completed''"
| "DemandStatus_value CANCELLED = lit ''Cancelled''"

fun StockStatus_value :: "StockStatus \<Rightarrow> jsstring" where
  "StockStatus_value AVAILABLE = lit ''Available''"
| "StockStatus_value RESERVED = lit ''Reserved''"
| "StockStatus_value SOLD = lit ''Sold''"

text \<open>
  A stored demand or stock item is an object read back by \<open>JSON.parse\<close>; the record holds
  the properties that the dashboard reads, \<open>None\<close> for a property that is absent. The status
  is whatever string was stored. JSON has no \<open>NaN\<close> and no infinity (\<open>JSON.stringify\<close>
  writes them as \<open>null\<close>, which every test below treats like an absent property), and the
  model has no overflow, so a stored volume is a finite number.
\<close>

record StoredItem =
  status :: "jsstring option"
  submittedByCompanyId :: "jsstring option"
  uploadedByCompanyId :: "jsstring option"
  cubicMeters :: "real option"

type_synonym DemandItem = StoredItem
type_synonym StockItem = StoredItem

record MockCompany =
  id' :: jsstring
  companyName :: jsstring
  role :: UserRole

text \<open>
  The three arrays of the browser's local storage after \<open>JSON.parse\<close>; a key that is not
  there reads as the empty array.
\<close>

record Storage =
  mockCompanies :: "MockCompany list"
  customerDemands :: "DemandItem list"
  manufacturerStock :: "StockItem list"

record StatusSummaryPoint =
  status :: jsstring
  count' :: nat
  percentage :: number
  colorClass :: jsstring

type_synonym OrderStatusSummaryPoint = StatusSummaryPoint
type_synonym StockStatusSummaryPoint = StatusSummaryPoint

record ChartEntry =
  label :: jsstring
  value' :: number
  color :: jsstring

text \<open>The part of the dashboard's component state that the three loaders write.\<close>

record AdminFeatureState =
  totalDemandsCount :: "nat option"
  totalStockItemsCount :: "nat option"
  topCustomersByVolume :: "ChartEntry list option"
  topManufacturersByVolume :: "ChartEntry list option"


section \<open>Status aggregator\<close>

definition DemandStatusColorMap :: "(jsstring \<times> jsstring) list" where
  "DemandStatusColorMap =
     [(DemandStatus_value RECEIVED, lit ''text-sky-500''),
      (DemandStatus_value PROCESSING, lit ''text-amber-500''),
      (DemandStatus_value COMPLETED, lit ''text-green-500''),
      (DemandStatus_value CANCELLED, lit ''text-red-500'')]"

definition StockStatusColorMap :: "(jsstring \<times> jsstring) list" where
  "StockStatusColorMap =
     [(StockStatus_value AVAILABLE, lit ''text-green-600''),
      (StockStatus_value RESERVED, lit ''text-yellow-600''),
      (StockStatus_value SOLD, lit ''text-red-600'')]"

text \<open>
  The \<open>counts\<close> object is an association list in the order in which its keys were written,
  which is the order of \<open>Object.keys\<close>. The body of the two \<open>forEach\<close> loops: the counter of
  the item's status goes up when \<open>counts\<close> has that key. (For a status that names a
  property inherited from \<open>Object.prototype\<close> the source writes a new property with value
  \<open>NaN\<close>; nothing reads it, and the association list leaves it out.)
\<close>

definition countDemand :: "(jsstring \<times> nat) list \<Rightarrow> DemandItem \<Rightarrow> (jsstring \<times> nat) list" where
  "countDemand counts d =
     (case StoredItem.status d of
        None \<Rightarrow> counts
      | Some s \<Rightarrow>
          (case map_of counts s of
             None \<Rightarrow> counts
           | Some n \<Rightarrow> AList.update s (n + 1) counts))"

definition countStock :: "(jsstring \<times> nat) list \<Rightarrow> StockItem \<Rightarrow> (jsstring \<times> nat) list" where
  "countStock counts s =
     (case StoredItem.status s of
        None \<Rightarrow> counts
      | Some st \<Rightarrow>
          if st \<noteq> [] then
            (case map_of counts st of
               None \<Rightarrow> counts
             | Some n \<Rightarrow> AList.update st (n + 1) counts)
          else counts)"

text \<open>
  Reading \<open>counts[k]\<close> and \<open>colorMap[k]\<close>. The keys that the source reads are always there,
  so neither default is ever taken; the source names the fallback colour only where the total
  is 0.
\<close>

definition countOf :: "(jsstring \<times> nat) list \<Rightarrow> jsstring \<Rightarrow> nat" where
  "countOf counts k = (case map_of counts k of None \<Rightarrow> 0 | Some n \<Rightarrow> n)"

definition colorOf :: "(jsstring \<times> jsstring) list \<Rightarrow> jsstring \<Rightarrow> jsstring" where
  "colorOf colorMap k = (case map_of colorMap k of None \<Rightarrow> lit ''bg-slate-500'' | Some c \<Rightarrow> c)"

definition zeroPoint :: "(jsstring \<times> jsstring) list \<Rightarrow> jsstring \<Rightarrow> StatusSummaryPoint" where
  "zeroPoint colorMap statusKey =
     \<lparr>status = statusKey, count' = 0, percentage = Num 0, colorClass = colorOf colorMap statusKey\<rparr>"

definition summaryPoint ::
  "(jsstring \<times> jsstring) list \<Rightarrow> (jsstring \<times> nat) list \<Rightarrow> nat \<Rightarrow> jsstring \<Rightarrow> StatusSummaryPoint" where
  "summaryPoint colorMap counts total' k =
     \<lparr>status = k,
      count' = countOf counts k,
      percentage =
        parseFloat
          (toFixed 1
             (num_mul (num_div (Num (real (countOf counts k))) (Num (real total'))) (Num 100))),
      colorClass = colorOf colorMap k\<rparr>"

definition loadOrderStatusSummary ::
  "Storage \<Rightarrow> AdminFeatureState \<Rightarrow> OrderStatusSummaryPoint list \<times> AdminFeatureState" where
  "loadOrderStatusSummary storage state =
     (let demands = customerDemands storage;
          counts = foldl countDemand
                     [(DemandStatus_value RECEIVED, 0), (DemandStatus_value PROCESSING, 0),
                      (DemandStatus_value COMPLETED, 0), (DemandStatus_value CANCELLED, 0)]
                     demands;
          total' = length demands;
          state' = state\<lparr>totalDemandsCount := Some total'\<rparr>
      in if total' = 0 then (map (zeroPoint DemandStatusColorMap) (map fst counts), state')
         else
           ([summaryPoint DemandStatusColorMap counts total' (DemandStatus_value RECEIVED),
             summaryPoint DemandStatusColorMap counts total' (DemandStatus_value PROCESSING),
             summaryPoint DemandStatusColorMap counts total' (DemandStatus_value COMPLETED),
             summaryPoint DemandStatusColorMap counts total' (DemandStatus_value CANCELLED)],
            state'))"

definition loadStockStatusSummary ::
  "Storage \<Rightarrow> AdminFeatureState \<Rightarrow> StockStatusSummaryPoint list \<times> AdminFeatureState" where
  "loadStockStatusSummary storage state =
     (let stockItems = manufacturerStock storage;
          counts = foldl countStock
                     [(StockStatus_value AVAILABLE, 0), (StockStatus_value RESERVED, 0),
                      (StockStatus_value SOLD, 0)]
                     stockItems;
          total' = length stockItems;
          state' = state\<lparr>totalStockItemsCount := Some total'\<rparr>
      in if total' = 0 then (map (zeroPoint StockStatusColorMap) (map fst counts), state')
         else
           ([summaryPoint StockStatusColorMap counts total' (StockStatus_value AVAILABLE),
             summaryPoint StockStatusColorMap counts total' (StockStatus_value RESERVED),
             summaryPoint StockStatusColorMap counts total' (StockStatus_value SOLD)],
            state'))"


section \<open>Company volume ranker\<close>

text \<open>
  \<open>companyVolumes\<close> starts as the empty object literal, so it inherits the properties of
  \<open>Object.prototype\<close>. Under such a name \<open>companyVolumes[k]\<close> is a function (or the prototype
  object) at first and a string once \<open>+=\<close> has run on it, never a number.
\<close>

definition Object_prototype_keys :: "jsstring list" where
  "Object_prototype_keys =
     map lit [''constructor'', ''__defineGetter__'', ''__defineSetter__'', ''hasOwnProperty'',
              ''__lookupGetter__'', ''__lookupSetter__'', ''isPrototypeOf'',
              ''propertyIsEnumerable'', ''toString'', ''valueOf'', ''__proto__'',
              ''toLocaleString'']"

text \<open>
  The owner of an item: \<open>submittedByCompanyId\<close> when the item has that property, else
  \<open>uploadedByCompanyId\<close>.
\<close>

definition companyIdOf :: "StoredItem \<Rightarrow> jsstring option" where
  "companyIdOf item =
     (case submittedByCompanyId item of
        Some c \<Rightarrow> Some c
      | None \<Rightarrow> uploadedByCompanyId item)"

text \<open>
  The body of the \<open>forEach\<close> over the items. The map holds the numeric own properties of
  \<open>companyVolumes\<close>; an empty id and a zero or absent volume are falsy.
\<close>

definition addVolume :: "(jsstring \<rightharpoonup> real) \<Rightarrow> StoredItem \<Rightarrow> (jsstring \<rightharpoonup> real)" where
  "addVolume companyVolumes item =
     (case companyIdOf item of
        None \<Rightarrow> companyVolumes
      | Some companyId \<Rightarrow>
          (case StoredItem.cubicMeters item of
             None \<Rightarrow> companyVolumes
           | Some v \<Rightarrow>
               if companyId \<noteq> [] \<and> v \<noteq> 0 then
                 if companyId \<in> set Object_prototype_keys then companyVolumes
                 else
                   let cv = (if (case companyVolumes companyId of None \<Rightarrow> True | Some x \<Rightarrow> x = 0)
                             then companyVolumes(companyId \<mapsto> 0) else companyVolumes)
                   in cv(companyId \<mapsto> (case cv companyId of None \<Rightarrow> 0 | Some x \<Rightarrow> x) + v)
               else companyVolumes))"

text \<open>
  \<open>companyVolumes[company.id] || 0\<close>, as the number that the comparison \<open>> 0\<close> sees: \<open>NaN\<close>
  for an inherited property.
\<close>

definition totalVolumeOf :: "(jsstring \<rightharpoonup> real) \<Rightarrow> jsstring \<Rightarrow> number" where
  "totalVolumeOf companyVolumes k =
     (if k \<in> set Object_prototype_keys then NaN
      else case companyVolumes k of None \<Rightarrow> Num 0 | Some x \<Rightarrow> Num x)"

record CompanyVolume =
  company :: MockCompany
  totalVolume :: number

definition num_sub :: "number \<Rightarrow> number \<Rightarrow> number" where
  "num_sub a b = num_add a (num_neg b)"

text \<open>
  \<open>Array.prototype.sort\<close> with a comparator is stable (ECMAScript 2019). It is modelled as
  insertion from the right: \<open>x\<close> passes every \<open>y\<close> with \<open>cmp x y > 0\<close>; a comparison that
  gives \<open>NaN\<close> counts as 0. For a consistent comparator this is the array that every
  conforming engine returns.
\<close>

fun sort_insert :: "('a \<Rightarrow> 'a \<Rightarrow> number) \<Rightarrow> 'a \<Rightarrow> 'a list \<Rightarrow> 'a list" where
  "sort_insert cmp x [] = [x]"
| "sort_insert cmp x (y # ys) =
     (if num_gt (cmp x y) (Num 0) then y # sort_insert cmp x ys else x # y # ys)"

definition Array_sort :: "('a \<Rightarrow> 'a \<Rightarrow> number) \<Rightarrow> 'a list \<Rightarrow> 'a list" where
  "Array_sort cmp xs = foldr (sort_insert cmp) xs []"

text \<open>\<open>xs.slice(0, end)\<close> for a whole number \<open>end\<close>: a negative one counts from the back.\<close>

definition Array_slice0 :: "int \<Rightarrow> 'a list \<Rightarrow> 'a list" where
  "Array_slice0 end' xs =
     (if end' < 0 then take (nat (int (length xs) + end')) xs else take (nat end') xs)"

text \<open>
  The head of \<open>loadTopCompaniesByVolume\<close>: the companies of the role, and the demands for
  customers or the stock for manufacturers.
\<close>

definition relevantCompanies :: "Storage \<Rightarrow> UserRole \<Rightarrow> MockCompany list" where
  "relevantCompanies storage role' = filter (\<lambda>c. role c = role') (mockCompanies storage)"

definition allItems :: "Storage \<Rightarrow> UserRole \<Rightarrow> StoredItem list" where
  "allItems storage role' =
     (if role' = CUSTOMER then customerDemands storage else manufacturerStock storage)"

definition sortedCompanies :: "Storage \<Rightarrow> UserRole \<Rightarrow> int \<Rightarrow> CompanyVolume list" where
  "sortedCompanies storage role' topN =
     (let companyVolumes = foldl addVolume Map.empty (allItems storage role')
      in Array_slice0 topN
           (Array_sort (\<lambda>a b. num_sub (totalVolume b) (totalVolume a))
              (filter (\<lambda>cv. num_gt (totalVolume cv) (Num 0))
                 (map (\<lambda>company.
                         \<lparr>company = company,
                          totalVolume = totalVolumeOf companyVolumes (id' company)\<rparr>)
                    (relevantCompanies storage role')))))"

definition chartEntry :: "UserRole \<Rightarrow> nat \<times> CompanyVolume \<Rightarrow> ChartEntry" where
  "chartEntry role' p =
     (case p of (index, cv) \<Rightarrow>
        \<lparr>label = (if length (companyName (company cv)) > 15
                  then take 12 (companyName (company cv)) @ lit ''...''
                  else companyName (company cv)),
         value' = parseFloat (toFixed 2 (totalVolume cv)),
         color = (if role' = CUSTOMER
                  then lit ''text-sky-'' @ ToString_int (700 - int index * 100)
                  else lit ''text-emerald-'' @ ToString_int (700 - int index * 100))\<rparr>)"

definition chartData :: "Storage \<Rightarrow> UserRole \<Rightarrow> int \<Rightarrow> ChartEntry list" where
  "chartData storage role' topN =
     map (chartEntry role') (enumerate 0 (sortedCompanies storage role' topN))"

text \<open>\<open>loadTopCompaniesByVolume\<close>; its parameter \<open>topN\<close> defaults to 5.\<close>

definition loadTopCompaniesByVolume ::
  "Storage \<Rightarrow> UserRole \<Rightarrow> int \<Rightarrow> AdminFeatureState \<Rightarrow> AdminFeatureState" where
  "loadTopCompaniesByVolume storage role' topN state =
     (if role' = CUSTOMER
      then state\<lparr>topCustomersByVolume := Some (chartData storage role' topN)\<rparr>
      else state\<lparr>topManufacturersByVolume := Some (chartData storage role' topN)\<rparr>)"

definition default_topN :: int where
  "default_topN = 5"


section \<open>Vocabulary of the specification\<close>

text \<open>
  Rounding to \<open>d\<close> decimal places, half away from zero, and the same on numbers, where \<open>NaN\<close>
  and the infinities stay as they are.
\<close>

definition round_half_away :: "nat \<Rightarrow> real \<Rightarrow> real" where
  "round_half_away d x = sgn x * real_of_int \<lfloor>\<bar>x\<bar> * 10 ^ d + 1 / 2\<rfloor> / 10 ^ d"

fun parseFloat_toFixed :: "nat \<Rightarrow> number \<Rightarrow> number" where
  "parseFloat_toFixed d (Num x) = Num (round_half_away d x)"
| "parseFloat_toFixed d n = n"

text \<open>
  \<open>r\<close> is \<open>x\<close> rounded to \<open>d\<close> decimal places: \<open>r\<close> has at most \<open>d\<close> fraction digits and lies
  within half a unit of the last place of \<open>x\<close>.
\<close>

definition is_rounded :: "nat \<Rightarrow> real \<Rightarrow> real \<Rightarrow> bool" where
  "is_rounded d x r \<longleftrightarrow> real_of_int \<lfloor>r * 10 ^ d\<rfloor> = r * 10 ^ d \<and> \<bar>r - x\<bar> \<le> 1 / (2 * 10 ^ d)"

text \<open>The closed form of the volume, for diameters in cm, a length in m and a piece count.\<close>

definition totalVolume_m3 :: "real \<Rightarrow> real \<Rightarrow> real \<Rightarrow> real \<Rightarrow> real" where
  "totalVolume_m3 dFrom dTo len qty = pi * ((dFrom + dTo) / 200)\<^sup>2 / 4 * len * qty"

text \<open>The average radius in metres, and the comparison \<open>\<le>\<close> on numbers.\<close>

definition avgRadius_m :: "ProductFeatures \<Rightarrow> number" where
  "avgRadius_m formData = num_div (avgDiameter formData) (Num 2)"


text \<open>The finite value of a number, and the sum of a list of numbers from the left.\<close>

fun the_num :: "number \<Rightarrow> real" where
  "the_num (Num x) = x"
| "the_num _ = 0"

definition num_sum :: "number list \<Rightarrow> number" where
  "num_sum xs = foldl num_add (Num 0) xs"

text \<open>How many of the items have the status \<open>k\<close>.\<close>

definition statusCount :: "jsstring \<Rightarrow> StoredItem list \<Rightarrow> nat" where
  "statusCount k items = length (filter (\<lambda>d. StoredItem.status d = Some k) items)"

text \<open>The values of the two status enumerations in the order of their declaration.\<close>

definition DemandStatus_values :: "jsstring list" where
  "DemandStatus_values = map DemandStatus_value [RECEIVED, PROCESSING, COMPLETED, CANCELLED]"

definition StockStatus_values :: "jsstring list" where
  "StockStatus_values = map StockStatus_value [AVAILABLE, RESERVED, SOLD]"

text \<open>An item with a status and nothing else, a storage of such items, and a fresh state.\<close>

definition itemWithStatus :: "jsstring \<Rightarrow> StoredItem" where
  "itemWithStatus s =
     \<lparr>StoredItem.status = Some s, submittedByCompanyId = None, uploadedByCompanyId = None,
      cubicMeters = None\<rparr>"

definition storageOf :: "MockCompany list \<Rightarrow> DemandItem list \<Rightarrow> StockItem list \<Rightarrow> Storage" where
  "storageOf cs ds ss = \<lparr>mockCompanies = cs, customerDemands = ds, manufacturerStock = ss\<rparr>"

definition initialState :: AdminFeatureState where
  "initialState =
     \<lparr>totalDemandsCount = None, totalStockItemsCount = None, topCustomersByVolume = None,
      topManufacturersByVolume = None\<rparr>"

text \<open>
  The row of the specification for the status \<open>k\<close>: its count among the items, and its
  share of all items in percent, rounded as \<open>toFixed(1)\<close> rounds, or 0 when there are none.
\<close>

definition specPoint ::
  "(jsstring \<times> jsstring) list \<Rightarrow> StoredItem list \<Rightarrow> jsstring \<Rightarrow> StatusSummaryPoint" where
  "specPoint colorMap items k =
     \<lparr>status = k, count' = statusCount k items,
      percentage =
        (if items = [] then Num 0
         else Num (round_half_away 1
                     (real (statusCount k items) / real (length items) * 100))),
      colorClass = colorOf colorMap k\<rparr>"

text \<open>Every item has a status of the enumeration \<open>ks\<close>.\<close>

definition allDrawnFrom :: "jsstring list \<Rightarrow> StoredItem list \<Rightarrow> bool" where
  "allDrawnFrom ks items \<longleftrightarrow> list_all (\<lambda>d. StoredItem.status d \<in> Some ` set ks) items"

text \<open>
  The percentage of a row is right for a total: 0 when the total is 0, and otherwise a
  finite number, the row's share of the total in percent rounded to one decimal place.
\<close>

definition percentage_ok :: "nat \<Rightarrow> StatusSummaryPoint \<Rightarrow> bool" where
  "percentage_ok total' p \<longleftrightarrow>
     (if total' = 0 then percentage p = Num 0
      else percentage p = Num (the_num (percentage p))
           \<and> is_rounded 1 (real (count' p) / real total' * 100) (the_num (percentage p)))"

text \<open>
  Two storages for the examples. The first holds two received demands and a completed one,
  and an available and a sold stock item. The second holds 1254 demands: 333 received, 333
  in processing, 333 completed, 254 cancelled and one with the status \<open>Archived\<close>, which is
  no member of the enumeration.
\<close>

definition scenarioStorage :: Storage where
  "scenarioStorage =
     storageOf []
       [itemWithStatus (DemandStatus_value RECEIVED), itemWithStatus (DemandStatus_value RECEIVED),
        itemWithStatus (DemandStatus_value COMPLETED)]
       [itemWithStatus (StockStatus_value AVAILABLE), itemWithStatus (StockStatus_value SOLD)]"

definition skewedStorage :: Storage where
  "skewedStorage =
     storageOf []
       (replicate 333 (itemWithStatus (DemandStatus_value RECEIVED))
        @ replicate 333 (itemWithStatus (DemandStatus_value PROCESSING))
        @ replicate 333 (itemWithStatus (DemandStatus_value COMPLETED))
        @ replicate 254 (itemWithStatus (DemandStatus_value CANCELLED))
        @ [itemWithStatus (lit ''Archived'')])
       []"

text \<open>A storage with one item outside each enumeration; the stock item has no status.\<close>

definition strayStorage :: Storage where
  "strayStorage =
     storageOf []
       [itemWithStatus (DemandStatus_value RECEIVED), itemWithStatus (lit ''Archived'')]
       [itemWithStatus (StockStatus_value SOLD),
        \<lparr>StoredItem.status = None, submittedByCompanyId = None, uploadedByCompanyId = None,
         cubicMeters = None\<rparr>]"














text \<open>A form state with the given four fields and the initial values elsewhere.\<close>

definition formData_of :: "jsstring \<Rightarrow> jsstring \<Rightarrow> jsstring \<Rightarrow> jsstring \<Rightarrow> ProductFeatures" where
  "formData_of dFrom dTo len qty =
     \<lparr>diameterType = [], diameterFrom = dFrom, diameterTo = dTo, length' = len,
      quantity = qty, cubicMeters = Some (Num 0), notes' = Some []\<rparr>"


section \<open>Bounds on \<open>\<pi>\<close>\<close>

text \<open>
  Partial sums of the alternating series of the arc tangent enclose its value; with Machin's
  formula they enclose \<open>\<pi>\<close>.
\<close>

lemma arctan_series_bounds:
  fixes x :: real
  assumes x0: "0 \<le> x" and x1: "x \<le> 1"
  shows "(\<Sum>i<2*n. (-1)^i * (1 / real (i * 2 + 1) * x ^ (i * 2 + 1))) \<le> arctan x"
    and "arctan x \<le> (\<Sum>i<2*n+1. (-1)^i * (1 / real (i * 2 + 1) * x ^ (i * 2 + 1)))"
proof -
  let ?a = "\<lambda>k. 1 / real (k * 2 + 1) * x ^ (k * 2 + 1)"
  have ax: "\<bar>x\<bar> \<le> 1" using x0 x1 by simp
  have z: "?a \<longlonglongrightarrow> 0" by (rule zeroseq_arctan_series [OF ax])
  have p: "\<And>k. 0 \<le> ?a k" using x0 by simp
  have m: "\<And>k. ?a (Suc k) \<le> ?a k"
  proof -
    fix k
    have "x ^ (Suc k * 2 + 1) \<le> x ^ (k * 2 + 1)"
      using x0 x1 by (intro power_decreasing) auto
    moreover have "1 / real (Suc k * 2 + 1) \<le> 1 / real (k * 2 + 1)"
      by (intro divide_left_mono) auto
    ultimately show "?a (Suc k) \<le> ?a k"
      using x0 by (intro mult_mono) auto
  qed
  have s: "arctan x = (\<Sum>k. (-1)^k * ?a k)" by (rule arctan_series [OF ax])
  show "(\<Sum>i<2*n. (-1)^i * ?a i) \<le> arctan x"
    unfolding s by (rule summable_Leibniz'(2) [OF z p m])
  show "arctan x \<le> (\<Sum>i<2*n+1. (-1)^i * ?a i)"
    unfolding s by (rule summable_Leibniz'(4) [OF z p m])
qed

lemma pi_bounds: "3.14159 < pi" "pi < 3.1416"
proof -
  have l5: "(\<Sum>i<2*2. (-1)^i * (1 / real (i * 2 + 1) * (1/5) ^ (i * 2 + 1))) \<le> arctan (1/5::real)"
    by (rule arctan_series_bounds(1)) auto
  have u5: "arctan (1/5::real) \<le> (\<Sum>i<2*2+1. (-1)^i * (1 / real (i * 2 + 1) * (1/5) ^ (i * 2 + 1)))"
    by (rule arctan_series_bounds(2)) auto
  have l239: "(\<Sum>i<2*1. (-1)^i * (1 / real (i * 2 + 1) * (1/239) ^ (i * 2 + 1))) \<le> arctan (1/239::real)"
    by (rule arctan_series_bounds(1)) auto
  have u239: "arctan (1/239::real) \<le> (\<Sum>i<2*0+1. (-1)^i * (1 / real (i * 2 + 1) * (1/239) ^ (i * 2 + 1)))"
    by (rule arctan_series_bounds(2)) auto
  have p: "pi = 16 * arctan (1/5) - 4 * arctan (1/239)"
    using machin by simp
  have l5': "(1/5 - 1/375 + 1/15625 - 1/546875 :: real) \<le> arctan (1/5)"
    using l5 by (simp add: numeral_eq_Suc)
  have u5': "arctan (1/5::real) \<le> 1/5 - 1/375 + 1/15625 - 1/546875 + 1/17578125"
    using u5 by (simp add: numeral_eq_Suc)
  have l239': "(1/239 - 1/40955757 :: real) \<le> arctan (1/239)"
    using l239 by (simp add: numeral_eq_Suc)
  have u239': "arctan (1/239::real) \<le> 1/239"
    using u239 by simp
  show "3.14159 < pi" using l5' u239' unfolding p by simp
  show "pi < 3.1416" using u5' l239' unfolding p by simp
qed


section \<open>Printing and reading back\<close>

text \<open>
  \<open>parseFloat\<close> reads the string of \<open>toFixed\<close> back as the rounded number.
\<close>

lemmas parse_defs = parseFloat_def parseInt_def lit_def isWhiteSpace_def
  strUnsignedDecimalLiteral_def isDigit_def isHexDigit_def digitsValue_def digitValue_def
  exponentPart_def signedInteger_def pow10_def

lemma below_ten: "d < 10 \<Longrightarrow> d \<in> {0, 1, 2, 3, 4, 5, 6, 7, 8, 9 :: nat}"
  by auto

lemma isDigit_of_nat: "d < 10 \<Longrightarrow> isDigit (of_nat (0x30 + d))"
  by (drule below_ten) (auto simp: isDigit_def)

lemma digitValue_of_nat: "d < 10 \<Longrightarrow> digitValue (of_nat (0x30 + d)) = d"
  by (drule below_ten) (auto simp: digitValue_def isDigit_def)

lemma digits_decimalString: "list_all isDigit (decimalString n)"
proof (induction n rule: decimalString.induct)
  case (1 n)
  show ?case
  proof (cases "n < 10")
    case True
    then show ?thesis
      using isDigit_of_nat [of n] by (subst decimalString.simps) simp
  next
    case False
    then show ?thesis
      using 1 isDigit_of_nat [of "n mod 10"] by (subst decimalString.simps) simp
  qed
qed

lemma digitsValue_snoc: "digitsValue r (ds @ [c]) = digitsValue r ds * r + digitValue c"
  by (simp add: digitsValue_def)

lemma digitsValue_decimalString: "digitsValue 10 (decimalString n) = n"
proof (induction n rule: decimalString.induct)
  case (1 n)
  show ?case
  proof (cases "n < 10")
    case True
    then show ?thesis
      using digitValue_of_nat [of n] by (subst decimalString.simps) (simp add: digitsValue_def)
  next
    case False
    then show ?thesis
      using 1 digitValue_of_nat [of "n mod 10"]
      by (subst decimalString.simps) (simp add: digitsValue_snoc)
  qed
qed

lemma decimalString_nonempty: "decimalString n \<noteq> []"
  by (subst decimalString.simps) simp

lemma foldl_digits_acc:
  "foldl (\<lambda>a c. a * r + digitValue c) a ds
   = a * r ^ length ds + foldl (\<lambda>a c. a * r + digitValue c) 0 ds"
proof (induction ds arbitrary: a)
  case Nil
  then show ?case by simp
next
  case (Cons d ds)
  show ?case
    using Cons.IH [of "a * r + digitValue d"] Cons.IH [of "digitValue d"]
    by (simp add: algebra_simps)
qed

lemma digitsValue_append:
  "digitsValue r (xs @ ys) = digitsValue r xs * r ^ length ys + digitsValue r ys"
  unfolding digitsValue_def foldl_append by (rule foldl_digits_acc)

lemma digitsValue_zeros: "digitsValue r (replicate k 0x30) = 0"
  by (induction k) (simp_all add: digitsValue_def digitValue_def isDigit_def)

lemma digitsValue_zeroPad: "digitsValue r (zeroPad k m) = digitsValue r m"
  by (simp add: zeroPad_def digitsValue_append digitsValue_zeros)

lemma digits_zeroPad: "list_all isDigit m \<Longrightarrow> list_all isDigit (zeroPad k m)"
  by (auto simp: zeroPad_def list_all_iff isDigit_def)

lemma length_zeroPad: "k \<le> length (zeroPad k m)"
  by (simp add: zeroPad_def)

lemma isDigit_not_space: "isDigit c \<Longrightarrow> \<not> isWhiteSpace c"
  by (auto simp: isDigit_def isWhiteSpace_def word_le_nat_alt)

lemma isDigit_not_sign: "isDigit c \<Longrightarrow> c \<noteq> 0x2D \<and> c \<noteq> 0x2B \<and> c \<noteq> 0x49 \<and> c \<noteq> 0x2E"
  by (auto simp: isDigit_def)

lemma sudl_fraction:
  assumes a: "list_all isDigit a" "a \<noteq> []" and b: "list_all isDigit b"
  shows "strUnsignedDecimalLiteral (a @ 0x2E # b)
         = Num (real (digitsValue 10 a) + real (digitsValue 10 b) / 10 ^ length b)"
proof -
  obtain c r where cr: "a = c # r"
    using a(2) by (cases a) auto
  then have c: "isDigit c"
    using a(1) by simp
  have np: "\<not> prefix (lit ''Infinity'') (a @ 0x2E # b)"
    using isDigit_not_sign [OF c] by (simp add: cr lit_def)
  have t: "takeWhile isDigit (a @ 0x2E # b) = a"
    using a(1) by (simp add: takeWhile_append2 list_all_iff isDigit_def)
  have d: "dropWhile isDigit (a @ 0x2E # b) = 0x2E # b"
    using a(1) by (simp add: dropWhile_append2 list_all_iff isDigit_def)
  have tb: "takeWhile isDigit b = b" and db: "dropWhile isDigit b = []"
    using b by (simp_all add: list_all_iff)
  show ?thesis
    unfolding strUnsignedDecimalLiteral_def Let_def t d
    using np a(2) by (simp add: tb db exponentPart_def pow10_def)
qed

lemma sudl_whole:
  assumes a: "list_all isDigit a" "a \<noteq> []"
  shows "strUnsignedDecimalLiteral a = Num (real (digitsValue 10 a))"
proof -
  obtain c r where cr: "a = c # r"
    using a(2) by (cases a) auto
  then have c: "isDigit c"
    using a(1) by simp
  have np: "\<not> prefix (lit ''Infinity'') a"
    using isDigit_not_sign [OF c] by (simp add: cr lit_def)
  have t: "takeWhile isDigit a = a" and d: "dropWhile isDigit a = []"
    using a(1) by (simp_all add: list_all_iff)
  show ?thesis
    unfolding strUnsignedDecimalLiteral_def Let_def t d
    using np a(2) by (simp add: exponentPart_def pow10_def digitsValue_def)
qed

lemma parseFloat_digit_start:
  assumes "isDigit c"
  shows "parseFloat (c # r) = strUnsignedDecimalLiteral (c # r)"
  using isDigit_not_space [OF assms] isDigit_not_sign [OF assms]
  by (simp add: parseFloat_def)

lemma parseFloat_minus_digit:
  assumes "isDigit c"
  shows "parseFloat (0x2D # c # r) = num_neg (strUnsignedDecimalLiteral (c # r))"
  by (simp add: parseFloat_def isWhiteSpace_def)

lemma fixedDigits_value:
  "\<exists>c r. fixedDigits f n = c # r \<and> isDigit c
         \<and> strUnsignedDecimalLiteral (c # r) = Num (real n / 10 ^ f)"
proof (cases "f = 0")
  case True
  obtain c r where cr: "decimalString n = c # r"
    using decimalString_nonempty [of n] by (cases "decimalString n") auto
  have "isDigit c"
    using digits_decimalString [of n] cr by simp
  moreover have "strUnsignedDecimalLiteral (decimalString n) = Num (real n)"
    using sudl_whole [OF digits_decimalString decimalString_nonempty, of n]
    by (simp add: digitsValue_decimalString)
  ultimately show ?thesis
    using True cr by (simp add: fixedDigits_def)
next
  case False
  define m0 where "m0 = zeroPad (f + 1) (decimalString n)"
  define a where "a = take (length m0 - f) m0"
  define b where "b = drop (length m0 - f) m0"
  have dig: "list_all isDigit m0"
    unfolding m0_def by (rule digits_zeroPad [OF digits_decimalString])
  have len: "f + 1 \<le> length m0"
    unfolding m0_def by (rule length_zeroPad)
  have ab: "a @ b = m0"
    by (simp add: a_def b_def)
  have da: "list_all isDigit a" and db: "list_all isDigit b"
    using dig unfolding ab [symmetric] by simp_all
  have la: "a \<noteq> []"
    using len by (auto simp: a_def)
  have lb: "length b = f"
    using len by (simp add: b_def)
  have "digitsValue 10 m0 = n"
    unfolding m0_def by (simp add: digitsValue_zeroPad digitsValue_decimalString)
  then have v: "digitsValue 10 a * 10 ^ f + digitsValue 10 b = n"
    unfolding ab [symmetric] by (simp add: digitsValue_append lb)
  have "real (digitsValue 10 a) + real (digitsValue 10 b) / 10 ^ f
        = real (digitsValue 10 a * 10 ^ f + digitsValue 10 b) / 10 ^ f"
    by (simp add: add_divide_distrib)
  then have val: "real (digitsValue 10 a) + real (digitsValue 10 b) / 10 ^ length b
                  = real n / 10 ^ f"
    unfolding v lb .
  have s: "strUnsignedDecimalLiteral (a @ 0x2E # b) = Num (real n / 10 ^ f)"
    using sudl_fraction [OF da la db] unfolding val .
  obtain c r where cr: "a = c # r"
    using la by (cases a) auto
  have "isDigit c"
    using da cr by simp
  moreover have "fixedDigits f n = a @ 0x2E # b"
    unfolding fixedDigits_def Let_def a_def b_def m0_def using False by simp
  ultimately show ?thesis
    using s cr by simp
qed

lemma toFixed_Num: "toFixed f (Num x)
   = (if x < 0 then 0x2D # fixedDigits f (nat \<lfloor>\<bar>x\<bar> * 10 ^ f + 1 / 2\<rfloor>)
      else fixedDigits f (nat \<lfloor>\<bar>x\<bar> * 10 ^ f + 1 / 2\<rfloor>))"
  by (simp add: toFixed.simps Let_def)

lemma parseFloat_toFixed_Num: "parseFloat (toFixed f (Num x)) = Num (round_half_away f x)"
proof -
  define n where "n = nat \<lfloor>\<bar>x\<bar> * 10 ^ f + 1 / 2\<rfloor>"
  have "0 \<le> \<bar>x\<bar> * 10 ^ f + 1 / 2"
    by simp
  then have "0 \<le> \<lfloor>\<bar>x\<bar> * 10 ^ f + 1 / 2\<rfloor>"
    by (simp only: zero_le_floor)
  then have rn: "real n = real_of_int \<lfloor>\<bar>x\<bar> * 10 ^ f + 1 / 2\<rfloor>"
    by (simp add: n_def)
  have tf: "toFixed f (Num x) = (if x < 0 then 0x2D # fixedDigits f n else fixedDigits f n)"
    unfolding n_def by (rule toFixed_Num)
  obtain c r where cr: "fixedDigits f n = c # r" "isDigit c"
    "strUnsignedDecimalLiteral (c # r) = Num (real n / 10 ^ f)"
    using fixedDigits_value by blast
  show ?thesis
  proof (cases "x < 0")
    case True
    have "parseFloat (toFixed f (Num x)) = parseFloat (0x2D # c # r)"
      unfolding tf using True by (simp add: cr(1))
    also have "\<dots> = num_neg (strUnsignedDecimalLiteral (c # r))"
      by (rule parseFloat_minus_digit [OF cr(2)])
    also have "\<dots> = Num (- (real n / 10 ^ f))"
      by (simp add: cr(3))
    also have "- (real n / 10 ^ f) = round_half_away f x"
      using True unfolding rn by (simp add: round_half_away_def)
    finally show ?thesis .
  next
    case False
    have "parseFloat (toFixed f (Num x)) = parseFloat (c # r)"
      unfolding tf using False by (simp add: cr(1))
    also have "\<dots> = strUnsignedDecimalLiteral (c # r)"
      by (rule parseFloat_digit_start [OF cr(2)])
    also have "\<dots> = Num (real n / 10 ^ f)"
      by (rule cr(3))
    also have "real n / 10 ^ f = round_half_away f x"
    proof (cases "x = 0")
      case True
      then show ?thesis by (simp add: n_def round_half_away_def)
    next
      case nz: False
      with False have "0 < x" by simp
      then show ?thesis unfolding rn by (simp add: round_half_away_def)
    qed
    finally show ?thesis .
  qed
qed

lemma parseFloat_toFixed_eq [simp]: "parseFloat (toFixed f x) = parseFloat_toFixed f x"
proof (cases x)
  case (Num r)
  then show ?thesis
    by (simp only: parseFloat_toFixed_Num parseFloat_toFixed.simps)
qed (simp_all add: toFixed.simps parse_defs)


section \<open>Rounding\<close>

lemma round_half_away_nonneg: "0 \<le> x \<Longrightarrow> round_half_away d x = real_of_int \<lfloor>x * 10 ^ d + 1 / 2\<rfloor> / 10 ^ d"
  by (cases "x = 0") (simp_all add: round_half_away_def)

lemma abs_div_diff:
  fixes a x p h :: real
  assumes "0 < p" "\<bar>a - x * p\<bar> \<le> h"
  shows "\<bar>a / p - x\<bar> \<le> h / p"
proof -
  have "a / p - x = (a - x * p) / p"
    using assms(1) by (simp add: field_simps)
  then have "\<bar>a / p - x\<bar> = \<bar>a - x * p\<bar> / p"
    using assms(1) by simp
  then show ?thesis
    using assms by (simp add: divide_right_mono)
qed

lemma round_half_away_is_rounded: "is_rounded d x (round_half_away d x)"
proof -
  define n where "n = \<lfloor>\<bar>x\<bar> * 10 ^ d + 1 / 2\<rfloor>"
  have p: "(0::real) < 10 ^ d" by simp
  have lo: "real_of_int n \<le> \<bar>x\<bar> * 10 ^ d + 1 / 2" unfolding n_def by (rule of_int_floor_le)
  have hi: "\<bar>x\<bar> * 10 ^ d + 1 / 2 < real_of_int n + 1" unfolding n_def by linarith
  have r: "round_half_away d x = real_of_int (if x < 0 then - n else n) / 10 ^ d"
    by (simp add: round_half_away_def n_def sgn_real_def)
  define y where "y = x * 10 ^ d"
  have ay: "\<bar>x\<bar> * 10 ^ d = \<bar>y\<bar>"
    by (simp add: y_def abs_mult)
  have "\<bar>real_of_int (if x < 0 then - n else n) - y\<bar> \<le> 1 / 2"
  proof (cases "x < 0")
    case True
    then have "y < 0" unfolding y_def by (simp add: mult_neg_pos)
    with lo hi True show ?thesis unfolding ay by (simp split: abs_split)
  next
    case False
    then have "0 \<le> y" unfolding y_def by simp
    with lo hi False show ?thesis unfolding ay by (simp split: abs_split)
  qed
  then have "\<bar>real_of_int (if x < 0 then - n else n) - x * 10 ^ d\<bar> \<le> 1 / 2"
    unfolding y_def .
  then have "\<bar>real_of_int (if x < 0 then - n else n) / 10 ^ d - x\<bar> \<le> 1 / 2 / 10 ^ d"
    by (rule abs_div_diff [OF p])
  then show ?thesis
    unfolding is_rounded_def r by simp
qed


lemma Math_pow_2: "Math_pow x 2 = num_mul x (num_mul x (Num 1))"
  by (simp add: numeral_2_eq_2)

lemma parseFloat_Nil: "parseFloat [] = NaN"
  by (simp add: parseFloat_def)

lemma parseInt_Nil: "parseInt [] = NaN"
  by (simp add: parseInt_def)

lemma cubicMetersValue_positive:
  assumes dF: "parseFloat (diameterFrom formData) = Num a"
    and dT: "parseFloat (diameterTo formData) = Num b"
    and len: "parseFloat (length' formData) = Num l"
    and qty: "parseInt (quantity formData) = Num n"
    and pos: "0 < a + b"
  shows "cubicMetersValue formData = Num (round_half_away 3 (totalVolume_m3 a b l n))"
proof -
  have ne: "diameterFrom formData \<noteq> []" "diameterTo formData \<noteq> []"
    "length' formData \<noteq> []" "quantity formData \<noteq> []"
    using dF dT len qty by (auto simp: parseFloat_Nil parseInt_Nil)
  have avg: "avgDiameter formData = Num ((a + b) / 2 / 100)"
    by (simp add: avgDiameter_def dF dT)
  have vpp: "volumePerPiece formData = Num (pi * ((a + b) / 2 / 100 / 2 * ((a + b) / 2 / 100 / 2 * 1)) * l)"
    by (simp add: volumePerPiece_def avg Math_pow_2 Math_PI_def len)
  have eq: "pi * ((a + b) / 2 / 100 / 2 * ((a + b) / 2 / 100 / 2 * 1)) * l * n = totalVolume_m3 a b l n"
    by (simp add: totalVolume_m3_def power2_eq_square)
  show ?thesis
    using pos by (simp add: cubicMetersValue_def ne avg vpp len qty eq [symmetric] del: mult_1_right)
qed


lemma round_half_away_eqI:
  assumes "0 \<le> x" "real_of_int z \<le> x * 10 ^ d + 1 / 2" "x * 10 ^ d + 1 / 2 < real_of_int z + 1"
  shows "round_half_away d x = real_of_int z / 10 ^ d"
proof -
  have "\<lfloor>x * 10 ^ d + 1 / 2\<rfloor> = z"
    using assms(2,3) by (rule floor_unique)
  then show ?thesis
    using assms(1) by (simp add: round_half_away_nonneg)
qed

lemma parse_10: "parseFloat (lit ''10'') = Num 10" by (simp add: parse_defs)
lemma parse_20: "parseFloat (lit ''20'') = Num 20" by (simp add: parse_defs)
lemma parse_4: "parseFloat (lit ''4'') = Num 4" by (simp add: parse_defs)
lemma parseInt_100: "parseInt (lit ''100'') = Num 100" by (simp add: parse_defs)

lemma scenario_value:
  "cubicMetersValue (formData_of (lit ''10'') (lit ''20'') (lit ''4'') (lit ''100'')) = Num (7069 / 1000)"
proof -
  have v: "totalVolume_m3 10 20 4 100 = 9 * pi / 4"
    by (simp add: totalVolume_m3_def power2_eq_square)
  have r: "round_half_away 3 (9 * pi / 4) = real_of_int 7069 / 10 ^ 3"
    using pi_bounds by (intro round_half_away_eqI) simp_all
  have "cubicMetersValue (formData_of (lit ''10'') (lit ''20'') (lit ''4'') (lit ''100''))
        = Num (round_half_away 3 (totalVolume_m3 10 20 4 100))"
    by (rule cubicMetersValue_positive) (simp_all add: formData_of_def parse_10 parse_20 parse_4 parseInt_100)
  then show ?thesis
    unfolding v r by simp
qed

lemma scenario_radius:
  "avgRadius_m (formData_of (lit ''10'') (lit ''20'') (lit ''4'') (lit ''100'')) = Num (75 / 1000)"
  by (simp add: avgRadius_m_def avgDiameter_def formData_of_def parse_10 parse_20)

lemma scenario_piece:
  "volumePerPiece (formData_of (lit ''10'') (lit ''20'') (lit ''4'') (lit ''100'')) = Num (9 * pi / 400)"
  by (simp add: volumePerPiece_def avgDiameter_def formData_of_def parse_10 parse_20 parse_4 Math_pow_2 Math_PI_def)

lemma scenario_piece_approx: "is_rounded 4 (9 * pi / 400) (707 / 10000)"
  using pi_bounds by (simp add: is_rounded_def abs_le_iff)












section \<open>Claims about the volume calculator\<close>






text \<open>
  Claim C7, as amended. For the diameters 10 and 20, the length 4 and the quantity 100 the
  average radius is 0.075, the volume of one piece is \<open>9\<pi> / 400\<close>, which is 0.0707 to four
  places, and the stored total is 7.069.
\<close>

theorem C7_scenario:
  "avgRadius_m (formData_of (lit ''10'') (lit ''20'') (lit ''4'') (lit ''100'')) = Num (75 / 1000)
   \<and> volumePerPiece (formData_of (lit ''10'') (lit ''20'') (lit ''4'') (lit ''100''))
       = Num (9 * pi / 400)
   \<and> is_rounded 4 (9 * pi / 400) (707 / 10000)
   \<and> cubicMetersValue (formData_of (lit ''10'') (lit ''20'') (lit ''4'') (lit ''100''))
       = Num (7069 / 1000)"
  using scenario_radius scenario_piece scenario_piece_approx scenario_value by simp

text \<open>
  Claim C7 as stated gives 7.068 for the total. The exact total is \<open>9\<pi> / 4\<close>, about
  7.06858, and \<open>toFixed(3)\<close> rounds it up.
\<close>

theorem C7_counterexample:
  "cubicMetersValue (formData_of (lit ''10'') (lit ''20'') (lit ''4'') (lit ''100''))
   \<noteq> Num (7068 / 1000)"
  using scenario_value by simp


section \<open>Counting by status\<close>

lemma DemandStatus_values_eq:
  "DemandStatus_values = [lit ''Received'', lit ''Processing'', lit ''Completed'', lit ''Cancelled'']"
  by (simp add: DemandStatus_values_def)

lemma StockStatus_values_eq:
  "StockStatus_values = [lit ''Available'', lit ''Reserved'', lit ''Sold'']"
  by (simp add: StockStatus_values_def)

lemma map_of_Some_key: "map_of al k = Some v \<Longrightarrow> k \<in> set (map fst al)"
  by (auto dest: map_of_SomeD intro: rev_image_eqI)

lemma countDemand_keys: "map fst (countDemand counts d) = map fst counts"
  by (auto simp: countDemand_def update_keys split: option.splits dest: map_of_Some_key)

lemma countStock_keys: "map fst (countStock counts d) = map fst counts"
  by (auto simp: countStock_def update_keys split: option.splits dest: map_of_Some_key)

lemma countOf_countDemand:
  assumes "k \<in> set (map fst counts)"
  shows "countOf (countDemand counts d) k
         = countOf counts k + (if StoredItem.status d = Some k then 1 else 0)"
proof -
  from assms obtain n where "map_of counts k = Some n"
    by (cases "map_of counts k") (auto simp: map_of_eq_None_iff)
  then show ?thesis
    by (auto simp: countDemand_def countOf_def update_conv' split: option.splits)
qed

lemma countOf_countStock:
  assumes "k \<in> set (map fst counts)" "k \<noteq> []"
  shows "countOf (countStock counts d) k
         = countOf counts k + (if StoredItem.status d = Some k then 1 else 0)"
proof -
  from assms obtain n where "map_of counts k = Some n"
    by (cases "map_of counts k") (auto simp: map_of_eq_None_iff)
  then show ?thesis
    using assms(2) by (auto simp: countStock_def countOf_def update_conv' split: option.splits)
qed

lemma foldl_countDemand_keys: "map fst (foldl countDemand counts ds) = map fst counts"
  by (induction ds arbitrary: counts) (simp_all add: countDemand_keys)

lemma foldl_countStock_keys: "map fst (foldl countStock counts ds) = map fst counts"
  by (induction ds arbitrary: counts) (simp_all add: countStock_keys)

lemma countOf_foldl_countDemand:
  assumes "k \<in> set (map fst counts)"
  shows "countOf (foldl countDemand counts ds) k = countOf counts k + statusCount k ds"
  using assms
proof (induction ds arbitrary: counts)
  case Nil
  then show ?case by (simp add: statusCount_def)
next
  case (Cons d ds)
  have "k \<in> set (map fst (countDemand counts d))"
    using Cons.prems by (simp only: countDemand_keys)
  then have "countOf (foldl countDemand (countDemand counts d) ds) k
             = countOf (countDemand counts d) k + statusCount k ds"
    by (rule Cons.IH)
  then show ?case
    using Cons.prems by (simp add: countOf_countDemand statusCount_def)
qed

lemma countOf_foldl_countStock:
  assumes "k \<in> set (map fst counts)" "k \<noteq> []"
  shows "countOf (foldl countStock counts ds) k = countOf counts k + statusCount k ds"
  using assms(1)
proof (induction ds arbitrary: counts)
  case Nil
  then show ?case by (simp add: statusCount_def)
next
  case (Cons d ds)
  have "k \<in> set (map fst (countStock counts d))"
    using Cons.prems by (simp only: countStock_keys)
  then have "countOf (foldl countStock (countStock counts d) ds) k
             = countOf (countStock counts d) k + statusCount k ds"
    by (rule Cons.IH)
  then show ?case
    using Cons.prems assms(2) by (simp add: countOf_countStock statusCount_def)
qed

text \<open>The row that the aggregator returns for a status, from the counts of the spec.\<close>

lemma summaryPoint_foldl_countDemand:
  assumes "k \<in> set (map fst counts)" "countOf counts k = 0"
  shows "summaryPoint cm (foldl countDemand counts ds) n k
         = \<lparr>status = k, count' = statusCount k ds,
            percentage = parseFloat_toFixed 1
               (num_mul (num_div (Num (real (statusCount k ds))) (Num (real n))) (Num 100)),
            colorClass = colorOf cm k\<rparr>"
  using assms by (simp add: summaryPoint_def countOf_foldl_countDemand)

lemma summaryPoint_foldl_countStock:
  assumes "k \<in> set (map fst counts)" "countOf counts k = 0" "k \<noteq> []"
  shows "summaryPoint cm (foldl countStock counts ds) n k
         = \<lparr>status = k, count' = statusCount k ds,
            percentage = parseFloat_toFixed 1
               (num_mul (num_div (Num (real (statusCount k ds))) (Num (real n))) (Num 100)),
            colorClass = colorOf cm k\<rparr>"
  using assms by (simp add: summaryPoint_def countOf_foldl_countStock)

lemma statusCount_Nil: "statusCount k [] = 0"
  by (simp add: statusCount_def)

lemma loadOrderStatusSummary_rows:
  "fst (loadOrderStatusSummary storage state)
   = map (specPoint DemandStatusColorMap (customerDemands storage)) DemandStatus_values"
proof (cases "customerDemands storage = []")
  case True
  then show ?thesis
    by (simp add: loadOrderStatusSummary_def Let_def zeroPoint_def specPoint_def
        DemandStatus_values_def statusCount_Nil)
next
  case False
  then show ?thesis
    by (simp add: loadOrderStatusSummary_def Let_def summaryPoint_foldl_countDemand
        countOf_def lit_def specPoint_def DemandStatus_values_def)
qed

lemma loadStockStatusSummary_rows:
  "fst (loadStockStatusSummary storage state)
   = map (specPoint StockStatusColorMap (manufacturerStock storage)) StockStatus_values"
proof (cases "manufacturerStock storage = []")
  case True
  then show ?thesis
    by (simp add: loadStockStatusSummary_def Let_def zeroPoint_def specPoint_def
        StockStatus_values_def statusCount_Nil)
next
  case False
  then show ?thesis
    by (simp add: loadStockStatusSummary_def Let_def summaryPoint_foldl_countStock
        countOf_def lit_def specPoint_def StockStatus_values_def)
qed

lemma sum_indicator_distinct:
  "distinct ks \<Longrightarrow> (\<Sum>k\<leftarrow>ks. if x = Some k then 1 else 0) = (if x \<in> Some ` set ks then 1 else (0::nat))"
  by (induction ks) auto

lemma statusCount_Cons:
  "statusCount k (d # ds) = (if StoredItem.status d = Some k then 1 else 0) + statusCount k ds"
  by (simp add: statusCount_def)

lemma statusCount_append: "statusCount k (xs @ ys) = statusCount k xs + statusCount k ys"
  by (simp add: statusCount_def)

lemma statusCount_replicate:
  "statusCount k (replicate n d) = (if StoredItem.status d = Some k then n else 0)"
  by (simp add: statusCount_def)

lemma sum_statusCount:
  assumes "distinct ks"
  shows "(\<Sum>k\<leftarrow>ks. statusCount k ds) = length (filter (\<lambda>d. StoredItem.status d \<in> Some ` set ks) ds)"
proof (induction ds)
  case Nil
  then show ?case by (simp add: statusCount_Nil)
next
  case (Cons d ds)
  have "(\<Sum>k\<leftarrow>ks. statusCount k (d # ds))
        = (\<Sum>k\<leftarrow>ks. if StoredItem.status d = Some k then 1 else 0) + (\<Sum>k\<leftarrow>ks. statusCount k ds)"
    by (simp add: statusCount_Cons sum_list_addf)
  then show ?case
    using Cons.IH by (simp add: sum_indicator_distinct [OF assms])
qed

lemma sum_statusCount_all:
  assumes "distinct ks" "allDrawnFrom ks ds"
  shows "(\<Sum>k\<leftarrow>ks. statusCount k ds) = length ds"
proof -
  have "filter (\<lambda>d. StoredItem.status d \<in> Some ` set ks) ds = ds"
    using assms(2) by (simp add: allDrawnFrom_def list_all_iff)
  then show ?thesis
    by (simp add: sum_statusCount [OF assms(1)])
qed

lemma sum_statusCount_less:
  assumes "distinct ks" "\<not> allDrawnFrom ks ds"
  shows "(\<Sum>k\<leftarrow>ks. statusCount k ds) < length ds"
proof -
  from assms(2) obtain d where "d \<in> set ds" "StoredItem.status d \<notin> Some ` set ks"
    by (auto simp: allDrawnFrom_def list_all_iff)
  then have "length (filter (\<lambda>d. StoredItem.status d \<in> Some ` set ks) ds) < length ds"
    by (rule length_filter_less)
  then show ?thesis
    by (simp add: sum_statusCount [OF assms(1)])
qed

lemma distinct_DemandStatus_values: "distinct DemandStatus_values"
  by (simp add: DemandStatus_values_eq lit_def)

lemma distinct_StockStatus_values: "distinct StockStatus_values"
  by (simp add: StockStatus_values_eq lit_def)

lemma foldl_num_add_Num: "foldl num_add (Num a) (map Num xs) = Num (a + sum_list xs)"
  by (induction xs arbitrary: a) (simp_all add: add.assoc)

lemma num_sum_Num: "num_sum (map Num xs) = Num (sum_list xs)"
  by (simp add: num_sum_def foldl_num_add_Num)

lemma sum_list_abs_diff:
  fixes f g :: "'a \<Rightarrow> real"
  assumes "\<And>x. x \<in> set xs \<Longrightarrow> \<bar>f x - g x\<bar> \<le> e"
  shows "\<bar>sum_list (map f xs) - sum_list (map g xs)\<bar> \<le> e * real (length xs)"
  using assms
proof (induction xs)
  case Nil
  then show ?case by simp
next
  case (Cons x xs)
  have a: "\<bar>f x - g x\<bar> \<le> e" using Cons.prems by simp
  have b: "\<bar>sum_list (map f xs) - sum_list (map g xs)\<bar> \<le> e * real (length xs)"
    using Cons.prems by (intro Cons.IH) simp
  have "\<bar>sum_list (map f (x # xs)) - sum_list (map g (x # xs))\<bar>
        \<le> \<bar>f x - g x\<bar> + \<bar>sum_list (map f xs) - sum_list (map g xs)\<bar>"
    by simp
  also have "\<dots> \<le> e + e * real (length xs)"
    using a b by simp
  finally show ?case
    by (simp add: algebra_simps)
qed

lemma sum_list_share:
  "(\<Sum>k\<leftarrow>ks. real (c k) / n * 100) = real (\<Sum>k\<leftarrow>ks. c k) / n * 100"
  by (induction ks) (simp_all add: add_divide_distrib distrib_right)

text \<open>The percentages of the rows of the specification, as real numbers, and their sum.\<close>

lemma percentages_specPoint:
  assumes "ds \<noteq> []"
  shows "map percentage (map (specPoint cm ds) ks)
         = map Num (map (\<lambda>k. round_half_away 1 (real (statusCount k ds) / real (length ds) * 100)) ks)"
  using assms by (simp add: specPoint_def)

lemma percentage_sum_near:
  assumes "ds \<noteq> []"
  shows "\<exists>s. num_sum (map percentage (map (specPoint cm ds) ks)) = Num s
             \<and> \<bar>s - real (\<Sum>k\<leftarrow>ks. statusCount k ds) / real (length ds) * 100\<bar>
                 \<le> real (length ks) / 20"
proof -
  let ?p = "\<lambda>k. round_half_away 1 (real (statusCount k ds) / real (length ds) * 100)"
  let ?e = "\<lambda>k. real (statusCount k ds) / real (length ds) * 100"
  have "\<And>k. \<bar>?p k - ?e k\<bar> \<le> 1 / 20"
    using round_half_away_is_rounded [of 1] by (simp add: is_rounded_def)
  then have "\<bar>sum_list (map ?p ks) - sum_list (map ?e ks)\<bar> \<le> 1 / 20 * real (length ks)"
    by (intro sum_list_abs_diff) 
  then have "\<bar>sum_list (map ?p ks) - real (\<Sum>k\<leftarrow>ks. statusCount k ds) / real (length ds) * 100\<bar>
             \<le> real (length ks) / 20"
    unfolding sum_list_share by simp
  moreover have "num_sum (map percentage (map (specPoint cm ds) ks)) = Num (sum_list (map ?p ks))"
    unfolding percentages_specPoint [OF assms] by (rule num_sum_Num)
  ultimately show ?thesis
    by blast
qed

lemma counts_specPoint: "map count' (map (specPoint cm ds) ks) = map (\<lambda>k. statusCount k ds) ks"
  by (simp add: specPoint_def)

lemma status_specPoint: "map status (map (specPoint cm ds) ks) = ks"
  by (simp add: specPoint_def comp_def)

lemma percentage_ok_specPoint: "percentage_ok (length ds) (specPoint cm ds k)"
  using round_half_away_is_rounded [of 1] by (simp add: percentage_ok_def specPoint_def)

lemma order_rows_sum:
  assumes "customerDemands storage \<noteq> []"
  shows "\<exists>s. num_sum (map percentage (fst (loadOrderStatusSummary storage state))) = Num s
       \<and> \<bar>s - real (\<Sum>k\<leftarrow>DemandStatus_values. statusCount k (customerDemands storage))
                / real (length (customerDemands storage)) * 100\<bar>
           \<le> real (length DemandStatus_values) / 20"
  unfolding loadOrderStatusSummary_rows using assms by (rule percentage_sum_near)

lemma stock_rows_sum:
  assumes "manufacturerStock storage \<noteq> []"
  shows "\<exists>s. num_sum (map percentage (fst (loadStockStatusSummary storage state))) = Num s
       \<and> \<bar>s - real (\<Sum>k\<leftarrow>StockStatus_values. statusCount k (manufacturerStock storage))
                / real (length (manufacturerStock storage)) * 100\<bar>
           \<le> real (length StockStatus_values) / 20"
  unfolding loadStockStatusSummary_rows using assms by (rule percentage_sum_near)

lemma sum_near_100:
  fixes s :: real
  assumes "\<bar>s - real c / real n * 100\<bar> \<le> real k / 20" "c = n" "n \<noteq> 0"
  shows "\<bar>s - 100\<bar> \<le> 0.1 * real k"
  using assms by simp

lemma sum_below:
  fixes s :: real
  assumes "\<bar>s - real c / real n * 100\<bar> \<le> real k / 20" "c < n"
  shows "s < 100 + real k / 20"
proof -
  have "real c / real n * 100 < 100"
    using assms(2) by (simp add: pos_divide_less_eq)
  moreover have "s - real c / real n * 100 \<le> real k / 20"
    using assms(1) unfolding abs_le_iff by blast
  ultimately show ?thesis
    by linarith
qed

lemma zero_rows:
  "ds = [] \<Longrightarrow> list_all (\<lambda>p. percentage p = Num 0) (map (specPoint cm ds) ks)"
  by (simp add: list_all_iff specPoint_def)


text \<open>
  The scenario of the specification: two received demands and a completed one give the
  counts 2, 0, 1, 0 and the percentages 66.7, 0, 33.3, 0.
\<close>

lemma aggregator_scenario:
  "map (\<lambda>p. (status p, count' p, percentage p))
     (fst (loadOrderStatusSummary scenarioStorage initialState))
   = [(lit ''Received'', 2, Num (667 / 10)), (lit ''Processing'', 0, Num 0),
      (lit ''Completed'', 1, Num (333 / 10)), (lit ''Cancelled'', 0, Num 0)]"
  unfolding loadOrderStatusSummary_rows
  by (simp add: scenarioStorage_def storageOf_def itemWithStatus_def specPoint_def
      statusCount_def DemandStatus_values_eq lit_def round_half_away_def)

text \<open>Without the test for a total of 0 the percentage of an empty storage would be \<open>NaN\<close>.\<close>

lemma unguarded_percentage_NaN:
  "countOf counts k = 0 \<Longrightarrow> percentage (summaryPoint colorMap counts 0 k) = NaN"
  by (simp add: summaryPoint_def)


section \<open>Claims about the status aggregator\<close>

text \<open>
  Claim C2. When every stored item has a status of the enumeration, the aggregator returns
  one row for each of the \<open>K\<close> values of the enumeration, in the order of their declaration
  (also for a value that no item has), and the counts of the rows add up to the number of
  items. It holds for the demand summary (\<open>K = 4\<close>) and for the stock summary (\<open>K = 3\<close>).
\<close>

theorem C2_rows_order_and_counts:
  "(allDrawnFrom DemandStatus_values (customerDemands storage) \<longrightarrow>
      map status (fst (loadOrderStatusSummary storage state)) = DemandStatus_values
      \<and> length (fst (loadOrderStatusSummary storage state)) = length DemandStatus_values
      \<and> sum_list (map count' (fst (loadOrderStatusSummary storage state)))
          = length (customerDemands storage))
   \<and> (allDrawnFrom StockStatus_values (manufacturerStock storage) \<longrightarrow>
      map status (fst (loadStockStatusSummary storage state)) = StockStatus_values
      \<and> length (fst (loadStockStatusSummary storage state)) = length StockStatus_values
      \<and> sum_list (map count' (fst (loadStockStatusSummary storage state)))
          = length (manufacturerStock storage))"
  unfolding loadOrderStatusSummary_rows loadStockStatusSummary_rows
  by (simp add: status_specPoint counts_specPoint sum_statusCount_all
      distinct_DemandStatus_values distinct_StockStatus_values del: map_map)

lemmas scenario_defs = scenarioStorage_def storageOf_def itemWithStatus_def allDrawnFrom_def
  DemandStatus_values_eq StockStatus_values_eq lit_def

text \<open>
  Claim C2 at the storage with two received demands and a completed one, and with an
  available and a sold stock item.
\<close>

theorem C2_rows_order_and_counts_witness:
  "allDrawnFrom DemandStatus_values (customerDemands scenarioStorage)
   \<and> allDrawnFrom StockStatus_values (manufacturerStock scenarioStorage)
   \<and> map status (fst (loadOrderStatusSummary scenarioStorage initialState)) = DemandStatus_values
   \<and> sum_list (map count' (fst (loadOrderStatusSummary scenarioStorage initialState))) = 3
   \<and> map status (fst (loadStockStatusSummary scenarioStorage initialState)) = StockStatus_values
   \<and> sum_list (map count' (fst (loadStockStatusSummary scenarioStorage initialState))) = 2"
  using C2_rows_order_and_counts [of scenarioStorage initialState]
  by (simp add: scenario_defs)

text \<open>
  Claim C4. In every row that the aggregator returns the percentage is 0 when there are no
  items at all, and otherwise it is a finite number, never \<open>NaN\<close>: the row's count divided
  by the number of items, times 100, rounded to one decimal place.
\<close>

theorem C4_percentage_of_each_row:
  "list_all (percentage_ok (length (customerDemands storage)))
     (fst (loadOrderStatusSummary storage state))
   \<and> list_all (percentage_ok (length (manufacturerStock storage)))
       (fst (loadStockStatusSummary storage state))"
  unfolding loadOrderStatusSummary_rows loadStockStatusSummary_rows
  by (simp add: list_all_iff percentage_ok_specPoint)

text \<open>
  Claim C8. When every item has a status of the enumeration and there is at least one item,
  the \<open>K\<close> percentages add up to 100 within \<open>0.1 * K\<close>; when there is no item, every
  percentage is 0.
\<close>

theorem C8_percentages_sum:
  "(allDrawnFrom DemandStatus_values (customerDemands storage) \<and> customerDemands storage \<noteq> [] \<longrightarrow>
      (\<exists>s. num_sum (map percentage (fst (loadOrderStatusSummary storage state))) = Num s
           \<and> \<bar>s - 100\<bar> \<le> 0.1 * real (length DemandStatus_values)))
   \<and> (customerDemands storage = [] \<longrightarrow>
      list_all (\<lambda>p. percentage p = Num 0) (fst (loadOrderStatusSummary storage state)))
   \<and> (allDrawnFrom StockStatus_values (manufacturerStock storage) \<and> manufacturerStock storage \<noteq> [] \<longrightarrow>
      (\<exists>s. num_sum (map percentage (fst (loadStockStatusSummary storage state))) = Num s
           \<and> \<bar>s - 100\<bar> \<le> 0.1 * real (length StockStatus_values)))
   \<and> (manufacturerStock storage = [] \<longrightarrow>
      list_all (\<lambda>p. percentage p = Num 0) (fst (loadStockStatusSummary storage state)))"
proof (intro conjI impI)
  assume a: "allDrawnFrom DemandStatus_values (customerDemands storage) \<and> customerDemands storage \<noteq> []"
  then obtain s where s: "num_sum (map percentage (fst (loadOrderStatusSummary storage state))) = Num s"
    "\<bar>s - real (\<Sum>k\<leftarrow>DemandStatus_values. statusCount k (customerDemands storage))
          / real (length (customerDemands storage)) * 100\<bar>
     \<le> real (length DemandStatus_values) / 20"
    using order_rows_sum [of storage state] by blast
  have "\<bar>s - 100\<bar> \<le> 0.1 * real (length DemandStatus_values)"
    using s(2) a by (intro sum_near_100 [OF s(2)])
      (simp_all add: sum_statusCount_all distinct_DemandStatus_values)
  with s(1) show "\<exists>s. num_sum (map percentage (fst (loadOrderStatusSummary storage state))) = Num s
           \<and> \<bar>s - 100\<bar> \<le> 0.1 * real (length DemandStatus_values)"
    by blast
next
  assume a: "allDrawnFrom StockStatus_values (manufacturerStock storage) \<and> manufacturerStock storage \<noteq> []"
  then obtain s where s: "num_sum (map percentage (fst (loadStockStatusSummary storage state))) = Num s"
    "\<bar>s - real (\<Sum>k\<leftarrow>StockStatus_values. statusCount k (manufacturerStock storage))
          / real (length (manufacturerStock storage)) * 100\<bar>
     \<le> real (length StockStatus_values) / 20"
    using stock_rows_sum [of storage state] by blast
  have "\<bar>s - 100\<bar> \<le> 0.1 * real (length StockStatus_values)"
    using s(2) a by (intro sum_near_100 [OF s(2)])
      (simp_all add: sum_statusCount_all distinct_StockStatus_values)
  with s(1) show "\<exists>s. num_sum (map percentage (fst (loadStockStatusSummary storage state))) = Num s
           \<and> \<bar>s - 100\<bar> \<le> 0.1 * real (length StockStatus_values)"
    by blast
next
  assume "customerDemands storage = []"
  then show "list_all (\<lambda>p. percentage p = Num 0) (fst (loadOrderStatusSummary storage state))"
    unfolding loadOrderStatusSummary_rows by (rule zero_rows)
next
  assume "manufacturerStock storage = []"
  then show "list_all (\<lambda>p. percentage p = Num 0) (fst (loadStockStatusSummary storage state))"
    unfolding loadStockStatusSummary_rows by (rule zero_rows)
qed

lemma counts_in_enum:
  "sum_list (map count' (fst (loadOrderStatusSummary storage state)))
     = length (filter (\<lambda>d. StoredItem.status d \<in> Some ` set DemandStatus_values)
                (customerDemands storage))"
  "sum_list (map count' (fst (loadStockStatusSummary storage state)))
     = length (filter (\<lambda>d. StoredItem.status d \<in> Some ` set StockStatus_values)
                (manufacturerStock storage))"
  unfolding loadOrderStatusSummary_rows loadStockStatusSummary_rows counts_specPoint
  by (simp_all add: sum_statusCount distinct_DemandStatus_values distinct_StockStatus_values)

lemma stray_rows:
  assumes "distinct ks" "\<not> allDrawnFrom ks ds"
  shows "sum_list (map count' (map (specPoint cm ds) ks)) < length ds
     \<and> list_all (percentage_ok (length ds)) (map (specPoint cm ds) ks)
     \<and> (\<exists>s. num_sum (map percentage (map (specPoint cm ds) ks)) = Num s
            \<and> s < 100 + real (length ks) / 20)"
proof -
  have less: "(\<Sum>k\<leftarrow>ks. statusCount k ds) < length ds"
    using assms by (rule sum_statusCount_less)
  then have "ds \<noteq> []"
    by auto
  then obtain s where s: "num_sum (map percentage (map (specPoint cm ds) ks)) = Num s"
    "\<bar>s - real (\<Sum>k\<leftarrow>ks. statusCount k ds) / real (length ds) * 100\<bar> \<le> real (length ks) / 20"
    using percentage_sum_near [of ds cm ks] by blast
  have "s < 100 + real (length ks) / 20"
    using s(2) less by (rule sum_below)
  moreover have "sum_list (map count' (map (specPoint cm ds) ks)) < length ds"
    unfolding counts_specPoint by (rule less)
  moreover have "list_all (percentage_ok (length ds)) (map (specPoint cm ds) ks)"
    by (simp add: list_all_iff percentage_ok_specPoint)
  ultimately show ?thesis
    using s(1) by blast
qed

text \<open>
  Claim C10, as amended. The counts of the rows add up to the number of items whose status
  is a value of the enumeration, while every percentage is taken of the number of all items.
  So when some item has another status or none, the counts add up to less than the number of
  items, and the percentages add up to less than \<open>100 + 0.05 * K\<close>.
\<close>

theorem C10_stray_status:
  "sum_list (map count' (fst (loadOrderStatusSummary storage state)))
     = length (filter (\<lambda>d. StoredItem.status d \<in> Some ` set DemandStatus_values)
                (customerDemands storage))
   \<and> sum_list (map count' (fst (loadStockStatusSummary storage state)))
     = length (filter (\<lambda>d. StoredItem.status d \<in> Some ` set StockStatus_values)
                (manufacturerStock storage))
   \<and> (\<not> allDrawnFrom DemandStatus_values (customerDemands storage) \<longrightarrow>
        sum_list (map count' (fst (loadOrderStatusSummary storage state)))
          < length (customerDemands storage)
        \<and> list_all (percentage_ok (length (customerDemands storage)))
            (fst (loadOrderStatusSummary storage state))
        \<and> (\<exists>s. num_sum (map percentage (fst (loadOrderStatusSummary storage state))) = Num s
               \<and> s < 100 + real (length DemandStatus_values) / 20))
   \<and> (\<not> allDrawnFrom StockStatus_values (manufacturerStock storage) \<longrightarrow>
        sum_list (map count' (fst (loadStockStatusSummary storage state)))
          < length (manufacturerStock storage)
        \<and> list_all (percentage_ok (length (manufacturerStock storage)))
            (fst (loadStockStatusSummary storage state))
        \<and> (\<exists>s. num_sum (map percentage (fst (loadStockStatusSummary storage state))) = Num s
               \<and> s < 100 + real (length StockStatus_values) / 20))"
  using counts_in_enum [of storage state]
    stray_rows [OF distinct_DemandStatus_values, of "customerDemands storage" DemandStatusColorMap]
    stray_rows [OF distinct_StockStatus_values, of "manufacturerStock storage" StockStatusColorMap]
  unfolding loadOrderStatusSummary_rows loadStockStatusSummary_rows
  by blast

lemmas stray_defs = strayStorage_def storageOf_def itemWithStatus_def allDrawnFrom_def
  DemandStatus_values_eq StockStatus_values_eq lit_def

text \<open>
  The amended claim C10 at a storage with two demands, one of them \<open>Archived\<close>, and two
  stock items, one of them without a status.
\<close>

theorem C10_stray_status_witness:
  "\<not> allDrawnFrom DemandStatus_values (customerDemands strayStorage)
   \<and> \<not> allDrawnFrom StockStatus_values (manufacturerStock strayStorage)
   \<and> sum_list (map count' (fst (loadOrderStatusSummary strayStorage initialState))) < 2
   \<and> sum_list (map count' (fst (loadStockStatusSummary strayStorage initialState))) < 2
   \<and> (\<exists>s. num_sum (map percentage (fst (loadOrderStatusSummary strayStorage initialState))) = Num s
          \<and> s < 100 + 4 / 20)
   \<and> (\<exists>s. num_sum (map percentage (fst (loadStockStatusSummary strayStorage initialState))) = Num s
          \<and> s < 100 + 3 / 20)"
  using C10_stray_status [of strayStorage initialState]
  by (simp add: stray_defs)

lemma skewed_length: "length (customerDemands skewedStorage) = 1254"
  by (simp add: skewedStorage_def storageOf_def)

lemma skewed_counts:
  "statusCount (lit ''Received'') (customerDemands skewedStorage) = 333"
  "statusCount (lit ''Processing'') (customerDemands skewedStorage) = 333"
  "statusCount (lit ''Completed'') (customerDemands skewedStorage) = 333"
  "statusCount (lit ''Cancelled'') (customerDemands skewedStorage) = 254"
  by (simp_all add: skewedStorage_def storageOf_def statusCount_append statusCount_replicate
      statusCount_Cons statusCount_Nil itemWithStatus_def lit_def)

lemma skewed_round:
  "round_half_away 1 (real 333 / real 1254 * 100) = 266 / 10"
  "round_half_away 1 (real 254 / real 1254 * 100) = 203 / 10"
proof -
  have "round_half_away 1 (real 333 / real 1254 * 100) = real_of_int 266 / 10 ^ 1"
    by (intro round_half_away_eqI) simp_all
  then show "round_half_away 1 (real 333 / real 1254 * 100) = 266 / 10"
    by simp
  have "round_half_away 1 (real 254 / real 1254 * 100) = real_of_int 203 / 10 ^ 1"
    by (intro round_half_away_eqI) simp_all
  then show "round_half_away 1 (real 254 / real 1254 * 100) = 203 / 10"
    by simp
qed

lemma skewed_nonempty: "customerDemands skewedStorage \<noteq> []"
  using skewed_length by auto

lemma skewed_sum:
  "num_sum (map percentage (fst (loadOrderStatusSummary skewedStorage initialState))) = Num (1001 / 10)"
proof -
  have "map percentage (fst (loadOrderStatusSummary skewedStorage initialState))
        = map Num (map (\<lambda>k. round_half_away 1
             (real (statusCount k (customerDemands skewedStorage))
              / real (length (customerDemands skewedStorage)) * 100)) DemandStatus_values)"
    unfolding loadOrderStatusSummary_rows by (rule percentages_specPoint [OF skewed_nonempty])
  then show ?thesis
    unfolding DemandStatus_values_eq list.map skewed_counts skewed_length skewed_round
    by (simp add: num_sum_def)
qed

text \<open>
  Claim C10 as stated says that the percentages then add up to less than 100. With 1254
  demands, one of them \<open>Archived\<close>, the four percentages are 26.6, 26.6, 26.6 and 20.3: each
  is rounded up, and their sum is 100.1.
\<close>

theorem C10_counterexample:
  "itemWithStatus (lit ''Archived'') \<in> set (customerDemands skewedStorage)
   \<and> lit ''Archived'' \<notin> set DemandStatus_values
   \<and> num_sum (map percentage (fst (loadOrderStatusSummary skewedStorage initialState)))
       = Num (1001 / 10)"
  using skewed_sum by (simp add: skewedStorage_def storageOf_def DemandStatus_values_eq lit_def)

text \<open>Claim C8 at the storage of the scenario and at the empty storage.\<close>

theorem C8_percentages_sum_witness:
  "allDrawnFrom DemandStatus_values (customerDemands scenarioStorage)
   \<and> customerDemands scenarioStorage \<noteq> []
   \<and> (\<exists>s. num_sum (map percentage (fst (loadOrderStatusSummary scenarioStorage initialState))) = Num s
          \<and> \<bar>s - 100\<bar> \<le> 0.1 * 4)
   \<and> allDrawnFrom StockStatus_values (manufacturerStock scenarioStorage)
   \<and> manufacturerStock scenarioStorage \<noteq> []
   \<and> (\<exists>s. num_sum (map percentage (fst (loadStockStatusSummary scenarioStorage initialState))) = Num s
          \<and> \<bar>s - 100\<bar> \<le> 0.1 * 3)
   \<and> customerDemands (storageOf [] [] []) = []
   \<and> list_all (\<lambda>p. percentage p = Num 0)
        (fst (loadOrderStatusSummary (storageOf [] [] []) initialState))
   \<and> manufacturerStock (storageOf [] [] []) = []
   \<and> list_all (\<lambda>p. percentage p = Num 0)
        (fst (loadStockStatusSummary (storageOf [] [] []) initialState))"
  using C8_percentages_sum [of scenarioStorage initialState]
    C8_percentages_sum [of "storageOf [] [] []" initialState]
  by (simp add: scenario_defs)

text \<open>Claim C4 at a storage with three demands and at the empty storage.\<close>

theorem C4_percentage_of_each_row_witness:
  "length (customerDemands scenarioStorage) = 3
   \<and> list_all (percentage_ok (length (customerDemands scenarioStorage)))
        (fst (loadOrderStatusSummary scenarioStorage initialState))
   \<and> map percentage (fst (loadOrderStatusSummary scenarioStorage initialState))
       = [Num (667 / 10), Num 0, Num (333 / 10), Num 0]
   \<and> length (manufacturerStock (storageOf [] [] [])) = 0
   \<and> list_all (percentage_ok (length (manufacturerStock (storageOf [] [] []))))
        (fst (loadStockStatusSummary (storageOf [] [] []) initialState))"
proof -
  have "map percentage (fst (loadOrderStatusSummary scenarioStorage initialState))
        = map (\<lambda>t. snd (snd t))
            (map (\<lambda>p. (status p, count' p, percentage p))
               (fst (loadOrderStatusSummary scenarioStorage initialState)))"
    by (simp add: comp_def)
  then have "map percentage (fst (loadOrderStatusSummary scenarioStorage initialState))
             = [Num (667 / 10), Num 0, Num (333 / 10), Num 0]"
    unfolding aggregator_scenario by simp
  then show ?thesis
    using C4_percentage_of_each_row [of scenarioStorage initialState]
      C4_percentage_of_each_row [of "storageOf [] [] []" initialState]
    by (simp add: scenarioStorage_def storageOf_def)
qed


section \<open>Summing and sorting by volume\<close>









lemma list_all_insort_key:
  "list_all P (insort_key f x ys) \<longleftrightarrow> P x \<and> list_all P ys"
  by (auto simp: list_all_iff set_insort_key)













lemma map_enumerate: "map (\<lambda>p. f (snd p)) (enumerate n xs) = map f xs"
  by (induction xs arbitrary: n) simp_all


lemma label_chartData:
  "map label (chartData storage role' topN)
   = map (\<lambda>cv. if length (companyName (company cv)) > 15
                then take 12 (companyName (company cv)) @ lit ''...''
                else companyName (company cv)) (sortedCompanies storage role' topN)"
proof -
  have "map label (chartData storage role' topN)
        = map (\<lambda>p. if length (companyName (company (snd p))) > 15
                then take 12 (companyName (company (snd p))) @ lit ''...''
                else companyName (company (snd p)))
            (enumerate 0 (sortedCompanies storage role' topN))"
    by (simp add: chartData_def chartEntry_def comp_def split_def)
  then show ?thesis
    using map_enumerate [of "\<lambda>cv. if length (companyName (company cv)) > 15
                then take 12 (companyName (company cv)) @ lit ''...''
                else companyName (company cv)" 0 "sortedCompanies storage role' topN"]
    by simp
qed









section \<open>Examples of the ranker\<close>




section \<open>Claims about the company volume ranker\<close>







end
